theory Spec2Isabelle
  imports Main
begin

section \<open>Python strings, slices and ranges\<close>

text \<open>
  A Python \<open>str\<close> is a sequence of Unicode code points and \<open>len\<close> counts code
  points, so a text is a list of code points (natural numbers).
\<close>

type_synonym pystr = "nat list"

datatype py_error = ValueError | RuntimeError | FileNotFoundError | OSError

text \<open>
  The whitespace test shared by \<open>str.split()\<close>, \<open>str.strip()\<close> and the regular
  expression class \<open>\s\<close> on \<open>str\<close> patterns (CPython's \<open>Py_UNICODE_ISSPACE\<close>).
\<close>

definition isspace :: "nat \<Rightarrow> bool" where
  "isspace c \<longleftrightarrow>
     (9 \<le> c \<and> c \<le> 13) \<or> (28 \<le> c \<and> c \<le> 32) \<or> c = 133 \<or> c = 160 \<or> c = 5760 \<or>
     (8192 \<le> c \<and> c \<le> 8202) \<or> c = 8232 \<or> c = 8233 \<or> c = 8239 \<or> c = 8287 \<or> c = 12288"

text \<open>A literal of ASCII characters as a Python \<open>str\<close>.\<close>

definition str :: "string \<Rightarrow> pystr" where
  "str s = map of_char s"

text \<open>The one-character string \<open>" "\<close>.\<close>

definition SP :: pystr where
  "SP = [32]"

text \<open>\<open>text.split()\<close>: the maximal runs of non-whitespace, in order.\<close>

function split :: "pystr \<Rightarrow> pystr list" where
  "split t =
     (let u = dropWhile isspace t
      in if u = [] then []
         else takeWhile (\<lambda>c. \<not> isspace c) u # split (dropWhile (\<lambda>c. \<not> isspace c) u))"
  by pat_completeness auto
termination
proof (relation "measure length", simp, goal_cases)
  case (1 t u)
  have "length (dropWhile (\<lambda>c. \<not> isspace c) u) < length u"
  proof (cases u)
    case Nil
    with 1 show ?thesis by simp
  next
    case (Cons a as)
    with 1 have "\<not> isspace a"
      by (metis hd_dropWhile list.sel(1))
    with Cons show ?thesis
      by (simp add: le_imp_less_Suc length_dropWhile_le)
  qed
  also have "length u \<le> length t"
    using 1 by (simp add: length_dropWhile_le)
  finally show ?case by simp
qed

declare split.simps [simp del]

text \<open>\<open>sep.join(parts)\<close>.\<close>

fun join :: "pystr \<Rightarrow> pystr list \<Rightarrow> pystr" where
  "join sep [] = []"
| "join sep [w] = w"
| "join sep (w # v # ws) = w @ sep @ join sep (v # ws)"

text \<open>\<open>s.strip()\<close>: leading and trailing whitespace removed.\<close>

definition strip :: "pystr \<Rightarrow> pystr" where
  "strip s = rev (dropWhile isspace (rev (dropWhile isspace s)))"

text \<open>\<open>re.sub(r"\s+", " ", text)\<close>: every maximal whitespace run becomes one space.\<close>

function re_sub_ws :: "pystr \<Rightarrow> pystr" where
  "re_sub_ws [] = []"
| "re_sub_ws (c # cs) =
     (if isspace c then 32 # re_sub_ws (dropWhile isspace cs) else c # re_sub_ws cs)"
  by pat_completeness auto
termination
  by (relation "measure length") (auto simp: le_imp_less_Suc length_dropWhile_le)

text \<open>
  A slice bound as Python resolves it against a sequence of length \<open>n\<close>: a negative
  bound counts from the end, and every bound is clamped to \<open>0..n\<close>.
\<close>

definition slice_index :: "nat \<Rightarrow> int \<Rightarrow> nat" where
  "slice_index n i = (if i < 0 then nat (max 0 (int n + i)) else min n (nat i))"

text \<open>\<open>xs[i:j]\<close>.\<close>

definition py_slice :: "'a list \<Rightarrow> int \<Rightarrow> int \<Rightarrow> 'a list" where
  "py_slice xs i j =
     (let a = slice_index (length xs) i; b = slice_index (length xs) j
      in take (b - a) (drop a xs))"

text \<open>\<open>range(lo, hi, step)\<close>; a zero step raises \<open>ValueError\<close>.\<close>

definition py_range :: "int \<Rightarrow> int \<Rightarrow> int \<Rightarrow> py_error + int list" where
  "py_range lo hi step =
     (if step = 0 then Inl ValueError
      else if 0 < step
        then Inr (map (\<lambda>k. lo + int k * step) [0..<nat ((hi - lo + step - 1) div step)])
        else Inr (map (\<lambda>k. lo + int k * step) [0..<nat ((lo - hi - step - 1) div (- step))]))"

section \<open>The interactive path (app.py)\<close>

text \<open>
  \<open>chunk_text(text, size=300)\<close> of app.py: windows of \<open>size\<close> words, each joined
  with single spaces.
\<close>

definition app_chunk_text :: "pystr \<Rightarrow> int \<Rightarrow> py_error + pystr list" where
  "app_chunk_text text sz =
     (let words = split text
      in case py_range 0 (int (length words)) sz of
           Inl e \<Rightarrow> Inl e
         | Inr idx \<Rightarrow> Inr (map (\<lambda>i. join SP (py_slice words i (i + sz))) idx))"

section \<open>The offline indexing path (ingest.py)\<close>

definition CHUNK_SIZE_CHARS :: int where
  "CHUNK_SIZE_CHARS = 1200"

definition CHUNK_OVERLAP :: int where
  "CHUNK_OVERLAP = 200"

text \<open>
  The \<open>while\<close> loop of ingest.py's \<open>chunk_text\<close>, with the list of chunks built so far.
  The loop runs forever when the start position stops advancing, so the result is
  optional: \<open>None\<close> stands for a run that never leaves the loop.
\<close>

text \<open>
  The start position of the next iteration: \<open>end = start + chunk_size\<close>,
  \<open>start = end - overlap\<close>, and \<open>if start < 0: start = 0\<close>.
\<close>

definition next_start :: "int \<Rightarrow> int \<Rightarrow> int \<Rightarrow> int" where
  "next_start start chunk_size overlap =
     (let end = start + chunk_size; start' = end - overlap
      in if start' < 0 then 0 else start')"

partial_function (option) chunk_loop ::
    "pystr \<Rightarrow> int \<Rightarrow> int \<Rightarrow> int \<Rightarrow> pystr list \<Rightarrow> pystr list option" where
  "chunk_loop text chunk_size overlap start chunks =
     (if start < int (length text)
      then chunk_loop text chunk_size overlap
             (next_start start chunk_size overlap)
             (chunks @ [strip (py_slice text start (start + chunk_size))])
      else Some chunks)"

declare chunk_loop.simps [code]

text \<open>\<open>chunk_text(text, chunk_size=CHUNK_SIZE_CHARS, overlap=CHUNK_OVERLAP)\<close> of ingest.py.\<close>

definition ingest_chunk_text :: "pystr \<Rightarrow> int \<Rightarrow> int \<Rightarrow> pystr list option" where
  "ingest_chunk_text text chunk_size overlap =
     (let t = strip (re_sub_ws text)
      in if int (length t) \<le> chunk_size then Some [t]
         else chunk_loop t chunk_size overlap 0 [])"

section \<open>Termination of the character-window chunker\<close>

lemma next_start_advance:
  "overlap < chunk_size \<Longrightarrow> 0 \<le> start \<Longrightarrow>
   next_start start chunk_size overlap = start + (chunk_size - overlap)"
  by (simp add: next_start_def Let_def)

lemma chunk_loop_returns:
  assumes "overlap < chunk_size" "0 \<le> start"
  shows "\<exists>r. chunk_loop t chunk_size overlap start acc = Some r"
  using assms(2)
proof (induction "nat (int (length t) - start)" arbitrary: start acc rule: less_induct)
  case less
  show ?case
  proof (cases "start < int (length t)")
    case False
    then show ?thesis by (subst chunk_loop.simps) simp
  next
    case True
    let ?s = "next_start start chunk_size overlap"
    have eq: "?s = start + (chunk_size - overlap)"
      using assms(1) less.prems by (rule next_start_advance)
    have "nat (int (length t) - ?s) < nat (int (length t) - start)"
      using True assms(1) eq by linarith
    moreover have "0 \<le> ?s" using eq assms(1) less.prems by linarith
    ultimately obtain r where
      "chunk_loop t chunk_size overlap ?s (acc @ [strip (py_slice t start (start + chunk_size))]) = Some r"
      using less.hyps by blast
    with True show ?thesis by (subst chunk_loop.simps) simp
  qed
qed

lemma ingest_chunk_text_returns:
  "overlap < chunk_size \<Longrightarrow> \<exists>r. ingest_chunk_text t chunk_size overlap = Some r"
  by (simp add: ingest_chunk_text_def Let_def chunk_loop_returns)

text \<open>
  Claim C8. Under \<open>0 \<le> overlap < chunk_size\<close> and \<open>chunk_size > 0\<close> the
  character-window chunker returns for every text, and from every non-negative start
  position the next start position is larger by exactly \<open>chunk_size - overlap\<close>.
\<close>

theorem C8_chunk_text_terminates:
  assumes "0 \<le> overlap" and "overlap < chunk_size" and "0 < chunk_size"
  shows "(\<exists>chunks. ingest_chunk_text text chunk_size overlap = Some chunks) \<and>
         (\<forall>start. 0 \<le> start \<longrightarrow>
            next_start start chunk_size overlap = start + (chunk_size - overlap) \<and>
            start < next_start start chunk_size overlap)"
  using assms by (simp add: ingest_chunk_text_returns next_start_advance)

theorem C8_chunk_text_terminates_witness:
  "(0::int) \<le> 1 \<and> (1::int) < 4 \<and> (0::int) < 4 \<and>
   (\<exists>chunks. ingest_chunk_text (str ''abc de fg'') 4 1 = Some chunks) \<and>
   (0::int) \<le> 3 \<and> next_start 3 4 1 = 6 \<and> 3 < next_start 3 4 1"
  using C8_chunk_text_terminates [of 1 4 "str ''abc de fg''"] by simp

end
